theory Spec2Isabelle
  imports Main
begin

section \<open>Python helpers used by both scripts\<close>

text \<open>
  \<open>str.split(sep)\<close> for a one-character separator: the string is cut at every
  occurrence of the separator, and the empty string gives one empty field.
\<close>

fun py_split :: "char \<Rightarrow> string \<Rightarrow> string list" where
  "py_split sep [] = [[]]"
| "py_split sep (c # cs) =
     (if c = sep then [] # py_split sep cs
      else (case py_split sep cs of
              [] \<Rightarrow> [[c]]
            | w # ws \<Rightarrow> (c # w) # ws))"

text \<open>
  \<open>name.split(':')[0]\<close>. Indexing an empty list raises IndexError in Python; the
  model returns \<open>None\<close> there.
\<close>

definition split_colon_0 :: "string \<Rightarrow> string option" where
  "split_colon_0 name =
     (case py_split (CHR '':'') name of [] \<Rightarrow> None | w # ws \<Rightarrow> Some w)"

text \<open>
  \<open>os.path.join(a, b)\<close> of posixpath with two arguments: an absolute second part
  replaces the first, an empty first part or one ending in a slash is extended
  directly, and otherwise a slash is inserted.
\<close>

definition os_path_join :: "string \<Rightarrow> string \<Rightarrow> string" where
  "os_path_join a b =
     (if b \<noteq> [] \<and> hd b = CHR ''/'' then b
      else if a = [] \<or> last a = CHR ''/'' then a @ b
      else a @ ''/'' @ b)"

text \<open>
  Truth value of an \<open>Optional[str]\<close>: \<open>None\<close> and the empty string are false.
\<close>

fun py_truthy :: "string option \<Rightarrow> bool" where
  "py_truthy None = False"
| "py_truthy (Some s) = (s \<noteq> [])"

section \<open>Data of the two scripts\<close>

type_synonym bytes = "char list"

text \<open>A shape given in the configuration: a tuple of integers, or \<open>None\<close>.\<close>

type_synonym shape = "int list option"

text \<open>
  The shape of a graph tensor as the framework reports it: unknown rank, or a list of
  dimensions each of which may be unknown.
\<close>

type_synonym tensor_shape = "nat option list option"

text \<open>\<open>tf.constant(value, dtype=..., name=...)\<close>.\<close>

datatype tf_const = Constant (const_value: bool) (const_dtype: string) (const_name: string)

text \<open>\<open>ct.TensorType(name=..., shape=...)\<close>; the shape defaults to \<open>None\<close>.\<close>

datatype tensor_type = TensorType (tt_name: string) (tt_shape: shape)

datatype deployment_target = macOS12

text \<open>An entry of \<open>mlmodel.get_spec().description.input\<close> or \<open>.output\<close>.\<close>

record feature =
  feature_name :: string
  feature_type :: string

text \<open>A tensor produced by a graph operation, and a graph operation.\<close>

record tensor =
  tensor_name :: string
  tensor_shape :: tensor_shape
  tensor_dtype_name :: string

record operation =
  op_name :: string
  op_type :: string
  op_outputs :: "tensor list"

text \<open>
  Exceptions. \<open>ValueError\<close> is the one the converter raises itself, \<open>IndexError\<close>
  the one of an index out of range, and \<open>Raised e\<close> is an exception \<open>e\<close> coming out of
  a library call. All of them derive from Python's \<open>Exception\<close>.
\<close>

datatype 'e py_exception = ValueError string | IndexError | Raised 'e

section \<open>Observable effects\<close>

text \<open>
  An f-string is a sequence of literal text and interpolated values; \<open>print\<close> of it is
  recorded with the pieces kept apart.
\<close>

datatype 'e piece =
    Lit string
  | Str string
  | StrList "string list"
  | Shape tensor_shape
  | Exc "'e py_exception"

text \<open>The calls that reach outside the process, with the arguments the scripts pass.\<close>

datatype call =
    PathExists string
  | ImportMetaGraph string bool "(string \<times> tf_const) list option"
  | LatestCheckpoint string
  | Restore string
  | ConvertVariablesToConstants "string list"
  | GFileWrite string bytes
  | CtConvert string "tensor_type list" "tensor_type list" deployment_target
  | Save string

datatype 'e event =
    Print "'e piece list"
  | Call call
  | PrintExc "'e py_exception"

section \<open>The libraries, as parameters\<close>

text \<open>
  TensorFlow and coremltools are not part of the repository. Each entry point the
  scripts call is a field; a call that can raise returns a sum, \<open>Inl\<close> the exception.
  \<open>'g\<close> is a graph with its saver after \<open>import_meta_graph\<close>, \<open>'s\<close> a session
  with restored variables, \<open>'d\<close> a \<open>GraphDef\<close>, \<open>'m\<close> a converted model.
  An exception that comes out of a call is a value of \<open>'e\<close>; \<open>is_Exception\<close> tells
  whether its class derives from \<open>Exception\<close>, which \<open>KeyboardInterrupt\<close>,
  \<open>SystemExit\<close> and \<open>GeneratorExit\<close> do not.
\<close>

record ('e, 'g, 's, 'd) tensorflow =
  import_meta_graph :: "string \<Rightarrow> bool \<Rightarrow> (string \<times> tf_const) list option \<Rightarrow> 'e + 'g"
  latest_checkpoint :: "string \<Rightarrow> string option"
  restore :: "'g \<Rightarrow> string \<Rightarrow> 'e + 's"
  graph_def :: "'g \<Rightarrow> 'd"
  convert_variables_to_constants :: "'s \<Rightarrow> 'd \<Rightarrow> string list \<Rightarrow> 'e + 'd"
  SerializeToString :: "'d \<Rightarrow> bytes"
  gfile_write :: "string \<Rightarrow> bytes \<Rightarrow> 'e + unit"
  get_operations :: "'g \<Rightarrow> operation list"
  is_Exception :: "'e \<Rightarrow> bool"

record ('e, 'd, 'm) coremltools =
  ct_convert :: "'d \<Rightarrow> string \<Rightarrow> tensor_type list \<Rightarrow> tensor_type list
                 \<Rightarrow> deployment_target \<Rightarrow> 'e + 'm"
  ct_save :: "'m \<Rightarrow> string \<Rightarrow> 'e + unit"
  description_input :: "'m \<Rightarrow> feature list"
  description_output :: "'m \<Rightarrow> feature list"

section \<open>conversion\_script.py\<close>

text \<open>
  Line 52: \<open>[name.split(':')[0] for name in output_tensor_names]\<close>. The comprehension
  stops at the first element whose indexing raises.
\<close>

fun output_node_names_for_freezing :: "string list \<Rightarrow> string list option" where
  "output_node_names_for_freezing [] = Some []"
| "output_node_names_for_freezing (name # names) =
     (case split_colon_0 name of
        None \<Rightarrow> None
      | Some n \<Rightarrow> (case output_node_names_for_freezing names of
                    None \<Rightarrow> None
                  | Some ns \<Rightarrow> Some (n # ns)))"

text \<open>
  Lines 72 to 78: the loop over \<open>input_tensor_map_shapes.items()\<close>, with the list
  \<open>coreml_inputs\<close> as accumulator. The dictionary is the list of its items in
  insertion order.
\<close>

fun coreml_inputs_loop ::
  "string \<Rightarrow> (string \<times> shape) list \<Rightarrow> tensor_type list \<Rightarrow> tensor_type list option" where
  "coreml_inputs_loop phase_train_tensor_name [] coreml_inputs = Some coreml_inputs"
| "coreml_inputs_loop phase_train_tensor_name ((name_with_port, shp) # items) coreml_inputs =
     (if name_with_port = phase_train_tensor_name
      then coreml_inputs_loop phase_train_tensor_name items coreml_inputs
      else (case split_colon_0 name_with_port of
              None \<Rightarrow> None
            | Some actual_input_name_for_coreml \<Rightarrow>
                coreml_inputs_loop phase_train_tensor_name items
                  (coreml_inputs @ [TensorType actual_input_name_for_coreml shp])))"

text \<open>Lines 93 to 97: the summary of the model's declared inputs and outputs.\<close>

definition feature_line :: "feature \<Rightarrow> 'e event" where
  "feature_line f =
     Print [Lit ''  Name: '', Str (feature_name f), Lit '', Type: '', Str (feature_type f)]"

text \<open>
  Lines 67 to 97, from the conversion on: \<open>frozen_graph_def\<close> is the frozen graph and
  \<open>tr\<close> the effects so far.
\<close>

definition convert_and_save ::
  "('e, 'd, 'm) coremltools \<Rightarrow> 'd \<Rightarrow> string \<Rightarrow> (string \<times> shape) list \<Rightarrow> string list
   \<Rightarrow> string \<Rightarrow> 'e event list \<Rightarrow> ('e py_exception + unit) \<times> 'e event list" where
  "convert_and_save ct frozen_graph_def output_mlmodel_path input_tensor_map_shapes
       output_tensor_names phase_train_tensor_name tr =
     (let tr1 = tr @ [Print [Lit ''Converting to Core ML...'']] in
      case coreml_inputs_loop phase_train_tensor_name input_tensor_map_shapes [] of
        None \<Rightarrow> (Inl IndexError, tr1)
      | Some coreml_inputs \<Rightarrow>
          (let outputs = map (\<lambda>name. TensorType name None) output_tensor_names;
               tr2 = tr1 @ [Call (CtConvert ''tensorflow'' outputs coreml_inputs macOS12)] in
           case ct_convert ct frozen_graph_def ''tensorflow'' outputs coreml_inputs macOS12 of
             Inl e \<Rightarrow> (Inl (Raised e), tr2)
           | Inr mlmodel \<Rightarrow>
               (let tr3 = tr2 @ [Call (Save output_mlmodel_path)] in
                case ct_save ct mlmodel output_mlmodel_path of
                  Inl e \<Rightarrow> (Inl (Raised e), tr3)
                | Inr u \<Rightarrow>
                    (Inr (),
                     tr3 @
                     [Print [Lit ''Core ML model saved to: '', Str output_mlmodel_path],
                      Print [Lit (CHR 0x0A # ''Conversion Complete!'')],
                      Print [Lit ''Input details for Core ML model:'']] @
                     map feature_line (description_input ct mlmodel) @
                     [Print [Lit ''Output details for Core ML model:'']] @
                     map feature_line (description_output ct mlmodel)))))"

text \<open>
  \<open>convert_tf_checkpoint_to_coreml\<close>, lines 5 to 97. Creating the graph, the session
  and the constant are in-memory constructions; the effects start with the first
  \<open>print\<close>.
\<close>

definition convert_tf_checkpoint_to_coreml ::
  "('e, 'g, 's, 'd) tensorflow \<Rightarrow> ('e, 'd, 'm) coremltools \<Rightarrow> string \<Rightarrow> string \<Rightarrow> string
   \<Rightarrow> (string \<times> shape) list \<Rightarrow> string list \<Rightarrow> string
   \<Rightarrow> ('e py_exception + unit) \<times> 'e event list" where
  "convert_tf_checkpoint_to_coreml tf ct checkpoint_dir meta_filename output_mlmodel_path
       input_tensor_map_shapes output_tensor_names phase_train_tensor_name =
     (let phase_train_const = Constant False ''bool'' ''phase_train_const_val'';
          meta_path = os_path_join checkpoint_dir meta_filename;
          input_map = Some [(phase_train_tensor_name, phase_train_const)];
          tr1 = [Print [Lit ''Loading meta graph: '', Str meta_path],
                 Call (ImportMetaGraph meta_path True input_map)] in
      case import_meta_graph tf meta_path True input_map of
        Inl e \<Rightarrow> (Inl (Raised e), tr1)
      | Inr saver \<Rightarrow>
          (let latest_ckpt = latest_checkpoint tf checkpoint_dir;
               tr2 = tr1 @ [Call (LatestCheckpoint checkpoint_dir)] in
           if \<not> py_truthy latest_ckpt
           then (Inl (ValueError (''No checkpoint found in directory: '' @ checkpoint_dir)), tr2)
           else
             (let ckpt = the latest_ckpt;
                  tr3 = tr2 @ [Print [Lit ''Restoring weights from: '', Str ckpt],
                               Call (Restore ckpt)] in
              case restore tf saver ckpt of
                Inl e \<Rightarrow> (Inl (Raised e), tr3)
              | Inr sess \<Rightarrow>
                  (let tr4 = tr3 @ [Print [Lit ''Weights restored successfully.'']] in
                   case output_node_names_for_freezing output_tensor_names of
                     None \<Rightarrow> (Inl IndexError, tr4)
                   | Some node_names \<Rightarrow>
                       (let tr5 = tr4 @
                              [Print [Lit ''Freezing graph with output nodes: '',
                                      StrList node_names],
                               Call (ConvertVariablesToConstants node_names)] in
                        case convert_variables_to_constants tf sess (graph_def tf saver)
                               node_names of
                          Inl e \<Rightarrow> (Inl (Raised e), tr5)
                        | Inr frozen_graph_def \<Rightarrow>
                            (let frozen_pb_path = os_path_join checkpoint_dir ''frozen_model.pb'';
                                 data = SerializeToString tf frozen_graph_def;
                                 tr6 = tr5 @ [Call (GFileWrite frozen_pb_path data)] in
                             case gfile_write tf frozen_pb_path data of
                               Inl e \<Rightarrow> (Inl (Raised e), tr6)
                             | Inr u \<Rightarrow>
                                 convert_and_save ct frozen_graph_def output_mlmodel_path
                                   input_tensor_map_shapes output_tensor_names
                                   phase_train_tensor_name
                                   (tr6 @ [Print [Lit ''Frozen graph saved to: '',
                                                  Str frozen_pb_path]])))))))"

text \<open>
  The \<open>__main__\<close> block, lines 100 to 137: the configuration of the right-eye model.
\<close>

definition MODEL_DIR :: string where
  "MODEL_DIR = ''OriginalModel/R''"

definition META_FILE :: string where
  "META_FILE = ''R.meta''"

definition OUTPUT_MLMODEL_R :: string where
  "OUTPUT_MLMODEL_R = ''RightEyeWarp.mlpackage''"

definition input_tensor_map_shapes_R :: "(string \<times> shape) list" where
  "input_tensor_map_shapes_R =
     [(''inputs/input_img:0'', Some [1, 48, 64, 3]),
      (''inputs/input_fp:0'', Some [1, 48, 64, 12]),
      (''inputs/input_ang:0'', Some [1, 2]),
      (''model_control/phase_train:0'', None)]"

definition output_tensor_name :: string where
  "output_tensor_name = ''tower_0/warping_model/Tanh:0''"

definition conversion_main ::
  "('e, 'g, 's, 'd) tensorflow \<Rightarrow> ('e, 'd, 'm) coremltools
   \<Rightarrow> ('e py_exception + unit) \<times> 'e event list" where
  "conversion_main tf ct =
     (let checkpoint_dir = MODEL_DIR;
          output_mlmodel_full_path = os_path_join MODEL_DIR OUTPUT_MLMODEL_R;
          tr0 = [Print [Lit ''Starting conversion for Right Eye model:''],
                 Print [Lit ''  Model Directory: '', Str MODEL_DIR],
                 Print [Lit ''  Meta File: '', Str META_FILE],
                 Print [Lit ''  Checkpoint Directory: '', Str checkpoint_dir],
                 Print [Lit ''  Output Core ML Model: '', Str output_mlmodel_full_path]] in
      case convert_tf_checkpoint_to_coreml tf ct checkpoint_dir META_FILE
             output_mlmodel_full_path input_tensor_map_shapes_R [output_tensor_name]
             ''model_control/phase_train:0'' of
        (r, tr) \<Rightarrow> (r, tr0 @ tr))"

section \<open>inspect\_model.py\<close>

text \<open>Lines 33 and 34: one line for each tensor an operation produces.\<close>

definition output_tensor_line :: "tensor \<Rightarrow> 'e event" where
  "output_tensor_line t =
     Print [Lit ''    - Tensor Name: '', Str (tensor_name t),
            Lit '' (Shape: '', Shape (tensor_shape t),
            Lit '', DType: '', Str (tensor_dtype_name t), Lit '')'']"

fun output_tensor_lines :: "tensor list \<Rightarrow> 'e event list" where
  "output_tensor_lines [] = []"
| "output_tensor_lines (t # ts) = output_tensor_line t # output_tensor_lines ts"

text \<open>Lines 25 to 34: the loop over \<open>graph.get_operations()\<close>.\<close>

definition operation_line :: "operation \<Rightarrow> 'e event" where
  "operation_line opn =
     Print [Lit ''- Operation Name: '', Str (op_name opn),
            Lit '' (Type: '', Str (op_type opn), Lit '')'']"

fun print_operations :: "operation list \<Rightarrow> 'e event list" where
  "print_operations [] = []"
| "print_operations (opn # ops) =
     (operation_line opn #
      (if length (op_outputs opn) > 0
       then Print [Lit (''  Output Tensors from Op '' @ [CHR 0x27]), Str (op_name opn),
                   Lit [CHR 0x27, CHR '':'']] #
            output_tensor_lines (op_outputs opn)
       else [])) @
     print_operations ops"

text \<open>Lines 39 to 46: the placeholders and their tensors.\<close>

definition placeholder_tensor_line :: "tensor \<Rightarrow> 'e event" where
  "placeholder_tensor_line t =
     Print [Lit ''  Tensor Name: '', Str (tensor_name t),
            Lit '', Shape: '', Shape (tensor_shape t),
            Lit '', DType: '', Str (tensor_dtype_name t)]"

definition placeholder_line :: "operation \<Rightarrow> 'e event" where
  "placeholder_line ph_op = Print [Lit ''Potential Input (Placeholder Op): '', Str (op_name ph_op)]"

fun print_placeholders :: "operation list \<Rightarrow> 'e event list" where
  "print_placeholders [] = []"
| "print_placeholders (ph_op # phs) =
     (placeholder_line ph_op # map placeholder_tensor_line (op_outputs ph_op)) @
     print_placeholders phs"

definition hints :: "'e event list" where
  "hints =
     [Print [Lit (CHR 0x0A # ''--- Hints for finding I/O Tensors ---'')],
      Print [Lit ''Look for tensor names related to:''],
      Print [Lit ''  Inputs: 'im_ph', 'alpha_ph', 'beta_ph', 'input_image', 'angles', 'phase_train', or similar.''],
      Print [Lit ''          Input shapes might match (None, 48, 64, 3) for image, (None, 1) for angles based on original config.py.''],
      Print [Lit ''  Outputs: 'warp_field', 'displacement_map', 'output', 'prediction', or similar.''],
      Print [Lit ''           Output shape could be something like (None, 48, 64, 2) for a 2D warp field.'']]"

text \<open>\<open>inspect_checkpoint_model\<close>, lines 4 to 53.\<close>

definition inspect_checkpoint_model ::
  "('e, 'g, 's, 'd) tensorflow \<Rightarrow> string \<Rightarrow> string
   \<Rightarrow> ('e py_exception + unit) \<times> 'e event list" where
  "inspect_checkpoint_model tf checkpoint_dir meta_graph_filename =
     (let meta_path = os_path_join checkpoint_dir meta_graph_filename;
          tr1 = [Call (ImportMetaGraph meta_path True None)] in
      case import_meta_graph tf meta_path True None of
        Inl e \<Rightarrow> (Inl (Raised e), tr1)
      | Inr graph \<Rightarrow>
          (let latest_ckpt = latest_checkpoint tf checkpoint_dir;
               tr2 = tr1 @ [Call (LatestCheckpoint checkpoint_dir)] in
           if py_truthy latest_ckpt
           then
             (let ckpt = the latest_ckpt;
                  tr3 = tr2 @ [Print [Lit ''Restoring weights from: '', Str ckpt],
                               Call (Restore ckpt)] in
              case restore tf graph ckpt of
                Inl e \<Rightarrow> (Inl (Raised e), tr3)
              | Inr sess \<Rightarrow>
                  (let placeholders = filter (\<lambda>opn. op_type opn = ''Placeholder'')
                                        (get_operations tf graph) in
                   (Inr (),
                    tr3 @
                    [Print [Lit ''Weights restored successfully.''],
                     Print [Lit (CHR 0x0A # ''All operations and tensors in the graph:'')]] @
                    print_operations (get_operations tf graph) @
                    [Print [Lit (CHR 0x0A # ''--- Inputs (Placeholders) ---'')]] @
                    (if placeholders \<noteq> []
                     then print_placeholders placeholders
                     else [Print [Lit ''No explicit Placeholder ops found. Inputs might be defined differently.'']]) @
                    hints)))
           else
             (Inr (),
              tr2 @ [Print [Lit ''Error: No checkpoint found in directory: '',
                            Str checkpoint_dir]])))"

text \<open>
  \<open>except Exception\<close> (line 65) catches the exceptions whose class derives from
  \<open>Exception\<close>: \<open>ValueError\<close>, \<open>IndexError\<close>, and those of the library that
  \<open>is_Exception\<close> accepts.
\<close>

fun caught_by_except_Exception :: "('e \<Rightarrow> bool) \<Rightarrow> 'e py_exception \<Rightarrow> bool" where
  "caught_by_except_Exception is_exc (ValueError msg) = True"
| "caught_by_except_Exception is_exc IndexError = True"
| "caught_by_except_Exception is_exc (Raised e) = is_exc e"

text \<open>
  The \<open>__main__\<close> block, lines 55 to 68. \<open>path_exists\<close> is \<open>os.path.exists\<close>. The
  handler prints the message and the traceback, and the program ends; an exception
  the handler does not catch leaves the program.
\<close>

definition checkpoint_base_dir :: string where
  "checkpoint_base_dir = ''OriginalModel/L''"

definition meta_file :: string where
  "meta_file = ''L.meta''"

definition inspect_main ::
  "(string \<Rightarrow> bool) \<Rightarrow> ('e, 'g, 's, 'd) tensorflow
   \<Rightarrow> ('e py_exception + unit) \<times> 'e event list" where
  "inspect_main path_exists tf =
     (let meta_path = os_path_join checkpoint_base_dir meta_file;
          tr0 = [Call (PathExists meta_path)] in
      if \<not> path_exists meta_path
      then (Inr (), tr0 @ [Print [Lit ''Error: Meta graph file not found at '', Str meta_path]])
      else
        (case inspect_checkpoint_model tf checkpoint_base_dir meta_file of
           (Inr u, tr) \<Rightarrow> (Inr (), tr0 @ tr)
         | (Inl e, tr) \<Rightarrow>
             if caught_by_except_Exception (is_Exception tf) e
             then (Inr (),
                   tr0 @ tr @
                   [Print [Lit ''An error occurred during model inspection: '', Exc e],
                    PrintExc e])
             else (Inl e, tr0 @ tr)))"

section \<open>Reading the effects\<close>

text \<open>The \<open>inputs\<close> argument of every call of \<open>ct.convert\<close>, in order.\<close>

fun ct_convert_inputs :: "'e event list \<Rightarrow> tensor_type list list" where
  "ct_convert_inputs [] = []"
| "ct_convert_inputs (Call (CtConvert source outputs inputs target) # es) =
     inputs # ct_convert_inputs es"
| "ct_convert_inputs (e # es) = ct_convert_inputs es"

text \<open>The calls of \<open>import_meta_graph\<close>, in order.\<close>

fun import_meta_graph_calls :: "'e event list \<Rightarrow> call list" where
  "import_meta_graph_calls [] = []"
| "import_meta_graph_calls (Call (ImportMetaGraph path clear_devices input_map) # es) =
     ImportMetaGraph path clear_devices input_map # import_meta_graph_calls es"
| "import_meta_graph_calls (e # es) = import_meta_graph_calls es"

text \<open>
  Freezing, writing the frozen graph, converting, and saving the model: the steps of
  the converter after the weights are restored.
\<close>

fun freezes_or_converts :: "'e event \<Rightarrow> bool" where
  "freezes_or_converts (Call (ConvertVariablesToConstants names)) = True"
| "freezes_or_converts (Call (GFileWrite path data)) = True"
| "freezes_or_converts (Call (CtConvert source outputs inputs target)) = True"
| "freezes_or_converts (Call (Save path)) = True"
| "freezes_or_converts e = False"

text \<open>The four kinds of listing lines of the inspector, told apart by their first literal.\<close>

fun is_operation_line :: "'e event \<Rightarrow> bool" where
  "is_operation_line (Print (Lit l # ps)) = (l = ''- Operation Name: '')"
| "is_operation_line e = False"

fun is_output_tensor_line :: "'e event \<Rightarrow> bool" where
  "is_output_tensor_line (Print (Lit l # ps)) = (l = ''    - Tensor Name: '')"
| "is_output_tensor_line e = False"

fun is_placeholder_line :: "'e event \<Rightarrow> bool" where
  "is_placeholder_line (Print (Lit l # ps)) = (l = ''Potential Input (Placeholder Op): '')"
| "is_placeholder_line e = False"

fun is_placeholder_tensor_line :: "'e event \<Rightarrow> bool" where
  "is_placeholder_tensor_line (Print (Lit l # ps)) = (l = ''  Tensor Name: '')"
| "is_placeholder_tensor_line e = False"

section \<open>Sample libraries\<close>

text \<open>
  A small graph with one placeholder, and libraries whose calls all succeed: the
  graph definition is the list of node names, freezing keeps the requested nodes, and
  the converted model records the inputs and outputs it was asked for.
\<close>

definition sample_ops :: "operation list" where
  "sample_ops =
     [\<lparr>op_name = ''inputs/input_img'', op_type = ''Placeholder'',
       op_outputs = [\<lparr>tensor_name = ''inputs/input_img:0'',
                      tensor_shape = Some [None, Some 48, Some 64, Some 3],
                      tensor_dtype_name = ''float32''\<rparr>]\<rparr>,
      \<lparr>op_name = ''save/restore_all'', op_type = ''NoOp'', op_outputs = []\<rparr>,
      \<lparr>op_name = ''tower_0/warping_model/Tanh'', op_type = ''Tanh'',
       op_outputs = [\<lparr>tensor_name = ''tower_0/warping_model/Tanh:0'',
                      tensor_shape = Some [None, Some 48, Some 64, Some 2],
                      tensor_dtype_name = ''float32''\<rparr>]\<rparr>]"

definition sample_tf :: "(string, operation list, unit, string list) tensorflow" where
  "sample_tf =
     \<lparr>import_meta_graph = (\<lambda>path clear_devices input_map. Inr sample_ops),
      latest_checkpoint = (\<lambda>d. Some (d @ ''/model.ckpt-1'')),
      restore = (\<lambda>g ckpt. Inr ()),
      graph_def = (\<lambda>g. map op_name g),
      convert_variables_to_constants = (\<lambda>s d names. Inr (filter (\<lambda>n. n \<in> set names) d)),
      SerializeToString = concat,
      gfile_write = (\<lambda>path data. Inr ()),
      get_operations = (\<lambda>g. g),
      is_Exception =
        (\<lambda>e. e \<notin> set [''KeyboardInterrupt'', ''SystemExit'', ''GeneratorExit''])\<rparr>"

definition sample_ct ::
  "(string, string list, tensor_type list \<times> tensor_type list) coremltools" where
  "sample_ct =
     \<lparr>ct_convert = (\<lambda>d source outputs inputs target. Inr (inputs, outputs)),
      ct_save = (\<lambda>m path. Inr ()),
      description_input =
        (\<lambda>m. map (\<lambda>t. \<lparr>feature_name = tt_name t, feature_type = ''multiArrayType''\<rparr>) (fst m)),
      description_output =
        (\<lambda>m. map (\<lambda>t. \<lparr>feature_name = tt_name t, feature_type = ''multiArrayType''\<rparr>) (snd m))\<rparr>"

text \<open>A directory without a checkpoint: \<open>latest_checkpoint\<close> returns \<open>None\<close>.\<close>

definition tf_no_checkpoint :: "(string, operation list, unit, string list) tensorflow" where
  "tf_no_checkpoint = sample_tf\<lparr>latest_checkpoint := (\<lambda>d. None)\<rparr>"

text \<open>
  An empty directory: there is no checkpoint, and loading the meta graph raises
  because the file is missing.
\<close>

definition tf_empty_dir :: "(string, operation list, unit, string list) tensorflow" where
  "tf_empty_dir =
     sample_tf\<lparr>import_meta_graph := (\<lambda>path clear_devices input_map. Inl ''File does not exist''),
               latest_checkpoint := (\<lambda>d. None)\<rparr>"

text \<open>A checkpoint whose data cannot be read: \<open>saver.restore\<close> raises.\<close>

definition tf_corrupt_checkpoint :: "(string, operation list, unit, string list) tensorflow" where
  "tf_corrupt_checkpoint = sample_tf\<lparr>restore := (\<lambda>g ckpt. Inl ''Data loss'')\<rparr>"

text \<open>A model converter that meets an operator it cannot translate.\<close>

definition ct_unsupported_op ::
  "(string, string list, tensor_type list \<times> tensor_type list) coremltools" where
  "ct_unsupported_op =
     sample_ct\<lparr>ct_convert := (\<lambda>d source outputs inputs target. Inl ''Unsupported op'')\<rparr>"

text \<open>
  A model converter that knows the graph: it refuses an empty list of inputs and an
  input named after the phase-train node, which the frozen graph no longer has.
\<close>

definition ct_checks_inputs ::
  "(string, string list, tensor_type list \<times> tensor_type list) coremltools" where
  "ct_checks_inputs =
     sample_ct\<lparr>ct_convert :=
       (\<lambda>d source outputs inputs target.
          if inputs = [] \<or> ''model_control/phase_train'' \<in> set (map tt_name inputs)
          then Inl ''Invalid inputs''
          else Inr (inputs, outputs))\<rparr>"

text \<open>
  A library whose loaded graph keeps, beside its operations, the input map it was
  imported with; \<open>remapped_to\<close> reads from such a graph the constant a tensor name was
  replaced by.
\<close>

definition tf_remapping ::
  "(string, operation list \<times> (string \<times> tf_const) list, unit, string list) tensorflow" where
  "tf_remapping =
     \<lparr>import_meta_graph =
        (\<lambda>path clear_devices input_map.
           Inr (sample_ops, (case input_map of None \<Rightarrow> [] | Some m \<Rightarrow> m))),
      latest_checkpoint = (\<lambda>d. Some (d @ ''/model.ckpt-1'')),
      restore = (\<lambda>g ckpt. Inr ()),
      graph_def = (\<lambda>g. map op_name (fst g)),
      convert_variables_to_constants = (\<lambda>s d names. Inr (filter (\<lambda>n. n \<in> set names) d)),
      SerializeToString = concat,
      gfile_write = (\<lambda>path data. Inr ()),
      get_operations = fst,
      is_Exception =
        (\<lambda>e. e \<notin> set [''KeyboardInterrupt'', ''SystemExit'', ''GeneratorExit''])\<rparr>"

definition remapped_to ::
  "operation list \<times> (string \<times> tf_const) list \<Rightarrow> string \<Rightarrow> tf_const option" where
  "remapped_to g name = map_of (snd g) name"



section \<open>Facts about the helpers\<close>

lemma py_split_not_Nil: "py_split sep s \<noteq> []"
  by (induction s) (auto split: list.splits)

lemma hd_py_split: "hd (py_split sep s) = takeWhile (\<lambda>c. c \<noteq> sep) s"
  using py_split_not_Nil by (induction s) (auto split: list.splits)

text \<open>
  \<open>name.split(':')[0]\<close> never raises, and it is the text before the first colon.
\<close>

lemma split_colon_0_eq: "split_colon_0 name = Some (takeWhile (\<lambda>c. c \<noteq> CHR '':'') name)"
proof (cases "py_split (CHR '':'') name")
  case Nil
  then show ?thesis using py_split_not_Nil by blast
next
  case (Cons w ws)
  then have "w = takeWhile (\<lambda>c. c \<noteq> CHR '':'') name"
    using hd_py_split [of "CHR '':''" name] by simp
  with Cons show ?thesis by (simp add: split_colon_0_def)
qed

lemma output_node_names_for_freezing_eq:
  "output_node_names_for_freezing names = Some (map (takeWhile (\<lambda>c. c \<noteq> CHR '':'')) names)"
  by (induction names) (simp_all add: split_colon_0_eq)

lemma coreml_inputs_loop_eq:
  "coreml_inputs_loop phase items acc =
     Some (acc @ map (\<lambda>(n, s). TensorType (takeWhile (\<lambda>c. c \<noteq> CHR '':'') n) s)
                    (filter (\<lambda>(n, s). n \<noteq> phase) items))"
  by (induction items arbitrary: acc) (auto simp: split_colon_0_eq)

lemma ct_convert_inputs_append:
  "ct_convert_inputs (xs @ ys) = ct_convert_inputs xs @ ct_convert_inputs ys"
  by (induction xs rule: ct_convert_inputs.induct) simp_all

lemma ct_convert_inputs_features: "ct_convert_inputs (map feature_line fs) = []"
  by (induction fs) (simp_all add: feature_line_def)

lemma import_meta_graph_calls_append:
  "import_meta_graph_calls (xs @ ys) = import_meta_graph_calls xs @ import_meta_graph_calls ys"
  by (induction xs rule: import_meta_graph_calls.induct) simp_all

lemma import_meta_graph_calls_features: "import_meta_graph_calls (map feature_line fs) = []"
  by (induction fs) (simp_all add: feature_line_def)

section \<open>The converter\<close>

subsection \<open>The part from the conversion on\<close>

lemma convert_and_save_inputs:
  "ct_convert_inputs (snd (convert_and_save ct fz out items outs phase tr)) = ct_convert_inputs tr
   \<or> ct_convert_inputs (snd (convert_and_save ct fz out items outs phase tr)) =
       ct_convert_inputs tr @
       [map (\<lambda>(n, s). TensorType (takeWhile (\<lambda>c. c \<noteq> CHR '':'') n) s)
            (filter (\<lambda>(n, s). n \<noteq> phase) items)]"
  by (simp add: convert_and_save_def coreml_inputs_loop_eq Let_def ct_convert_inputs_append
        ct_convert_inputs_features split: sum.splits)

lemma convert_and_save_imports:
  "import_meta_graph_calls (snd (convert_and_save ct fz out items outs phase tr)) =
     import_meta_graph_calls tr"
  by (simp add: convert_and_save_def coreml_inputs_loop_eq Let_def import_meta_graph_calls_append
        import_meta_graph_calls_features split: sum.splits)

lemma convert_and_save_prefix:
  "\<exists>rest. snd (convert_and_save ct fz out items outs phase tr) = tr @ rest"
  by (simp add: convert_and_save_def coreml_inputs_loop_eq Let_def split: sum.splits)

lemma convert_and_save_take:
  "n \<le> length tr \<Longrightarrow>
   take n (snd (convert_and_save ct fz out items outs phase tr)) = take n tr"
  using convert_and_save_prefix [of ct fz out items outs phase tr] by auto

text \<open>
  A run either never calls \<open>ct.convert\<close>, or it is the conversion part started after
  effects without such a call.
\<close>

lemma convert_reaches_conversion:
  "ct_convert_inputs (snd (convert_tf_checkpoint_to_coreml tf ct dir meta out items outs phase)) = []
   \<or> (\<exists>fz tr. convert_tf_checkpoint_to_coreml tf ct dir meta out items outs phase =
                  convert_and_save ct fz out items outs phase tr
               \<and> ct_convert_inputs tr = [])"
  apply (simp add: convert_tf_checkpoint_to_coreml_def Let_def output_node_names_for_freezing_eq
        split: sum.splits)
  apply (intro allI impI)
  apply (rule disjI2)
  apply (intro exI conjI)
   apply (rule refl)
  apply simp
  done

subsection \<open>No checkpoint in the directory\<close>

text \<open>
  C1, as stated, at an empty directory: \<open>latest_checkpoint\<close> finds nothing, and the
  meta graph file is missing as well. The load of the meta graph comes first
  (line 36) and raises, so the error that leaves the converter is the library's,
  not the \<open>ValueError\<close> of line 45.
\<close>

theorem no_checkpoint_not_always_ValueError:
  "\<not> py_truthy (latest_checkpoint tf_empty_dir ''EmptyDir'')
   \<and> convert_tf_checkpoint_to_coreml tf_empty_dir sample_ct ''EmptyDir'' ''R.meta''
         ''EmptyDir/RightEyeWarp.mlpackage'' input_tensor_map_shapes_R [output_tensor_name]
         ''model_control/phase_train:0'' =
       (Inl (Raised ''File does not exist''),
        [Print [Lit ''Loading meta graph: '', Str ''EmptyDir/R.meta''],
         Call (ImportMetaGraph ''EmptyDir/R.meta'' True
                (Some [(''model_control/phase_train:0'',
                        Constant False ''bool'' ''phase_train_const_val'')]))])
   \<and> fst (convert_tf_checkpoint_to_coreml tf_empty_dir sample_ct ''EmptyDir'' ''R.meta''
         ''EmptyDir/RightEyeWarp.mlpackage'' input_tensor_map_shapes_R [output_tensor_name]
         ''model_control/phase_train:0'') \<noteq>
       Inl (ValueError ''No checkpoint found in directory: EmptyDir'')"
  by (simp add: convert_tf_checkpoint_to_coreml_def tf_empty_dir_def sample_tf_def
      os_path_join_def Let_def)

text \<open>
  C1, amended: when no checkpoint can be located in the directory, the converter ends
  with an exception and never reaches freezing, the write of the frozen graph, the
  conversion or the save of the model. If the meta graph loaded, the exception is
  the \<open>ValueError\<close> "No checkpoint found in directory: ..."; if the load of the meta graph
  raised, it is that exception.
\<close>

theorem no_checkpoint_stops_before_freezing:
  assumes "\<not> py_truthy (latest_checkpoint tf dir)"
  shows "(case import_meta_graph tf (os_path_join dir meta) True
                 (Some [(phase, Constant False ''bool'' ''phase_train_const_val'')]) of
            Inl e \<Rightarrow>
              fst (convert_tf_checkpoint_to_coreml tf ct dir meta out items outs phase) =
                Inl (Raised e)
          | Inr saver \<Rightarrow>
              fst (convert_tf_checkpoint_to_coreml tf ct dir meta out items outs phase) =
                Inl (ValueError (''No checkpoint found in directory: '' @ dir)))
         \<and> filter freezes_or_converts
             (snd (convert_tf_checkpoint_to_coreml tf ct dir meta out items outs phase)) = []"
  using assms
  by (simp add: convert_tf_checkpoint_to_coreml_def Let_def split: sum.splits)

theorem no_checkpoint_stops_before_freezing_witness:
  "\<not> py_truthy (latest_checkpoint tf_no_checkpoint MODEL_DIR)
   \<and> fst (convert_tf_checkpoint_to_coreml tf_no_checkpoint sample_ct MODEL_DIR META_FILE
               (os_path_join MODEL_DIR OUTPUT_MLMODEL_R) input_tensor_map_shapes_R
               [output_tensor_name] ''model_control/phase_train:0'') =
        Inl (ValueError (''No checkpoint found in directory: '' @ MODEL_DIR))
   \<and> filter freezes_or_converts
        (snd (convert_tf_checkpoint_to_coreml tf_no_checkpoint sample_ct MODEL_DIR META_FILE
               (os_path_join MODEL_DIR OUTPUT_MLMODEL_R) input_tensor_map_shapes_R
               [output_tensor_name] ''model_control/phase_train:0'')) = []"
proof -
  have h: "\<not> py_truthy (latest_checkpoint tf_no_checkpoint MODEL_DIR)"
    by (simp add: tf_no_checkpoint_def sample_tf_def)
  have i: "import_meta_graph tf_no_checkpoint (os_path_join MODEL_DIR META_FILE) True
             (Some [(''model_control/phase_train:0'',
                     Constant False ''bool'' ''phase_train_const_val'')]) = Inr sample_ops"
    by (simp add: tf_no_checkpoint_def sample_tf_def)
  from no_checkpoint_stops_before_freezing [where tf = tf_no_checkpoint and dir = MODEL_DIR
      and meta = META_FILE and phase = "''model_control/phase_train:0''" and ct = sample_ct
      and out = "os_path_join MODEL_DIR OUTPUT_MLMODEL_R" and items = input_tensor_map_shapes_R
      and outs = "[output_tensor_name]", OF h] h i
  show ?thesis
    by simp
qed

subsection \<open>The inputs declared to the model converter\<close>

text \<open>
  C3: the loop of lines 72 to 78 skips every entry of the input map whose key equals
  \<open>phase_train_tensor_name\<close>, and every other entry gives exactly one declared input,
  in the order of the map, named by the key up to its first colon and carrying the
  entry's shape. When the steps before the conversion succeed, \<open>ct.convert\<close> is
  called once, it is applied to exactly this list as \<open>inputs\<close>, and its result
  decides how the converter ends. No run calls \<open>ct.convert\<close> with another list.
\<close>

theorem declared_inputs_exclude_phase_train:
  "coreml_inputs_loop phase items [] =
     Some (map (\<lambda>(n, s). TensorType (takeWhile (\<lambda>c. c \<noteq> CHR '':'') n) s)
               (filter (\<lambda>(n, s). n \<noteq> phase) items))
   \<and> (import_meta_graph tf (os_path_join dir meta) True
          (Some [(phase, Constant False ''bool'' ''phase_train_const_val'')]) = Inr saver
       \<and> py_truthy (latest_checkpoint tf dir)
       \<and> restore tf saver (the (latest_checkpoint tf dir)) = Inr sess
       \<and> convert_variables_to_constants tf sess (graph_def tf saver)
            (map (takeWhile (\<lambda>c. c \<noteq> CHR '':'')) outs) = Inr frozen_graph_def
       \<and> gfile_write tf (os_path_join dir ''frozen_model.pb'')
            (SerializeToString tf frozen_graph_def) = Inr ()
       \<longrightarrow>
         ct_convert_inputs
           (snd (convert_tf_checkpoint_to_coreml tf ct dir meta out items outs phase)) =
           [map (\<lambda>(n, s). TensorType (takeWhile (\<lambda>c. c \<noteq> CHR '':'') n) s)
                (filter (\<lambda>(n, s). n \<noteq> phase) items)]
         \<and> fst (convert_tf_checkpoint_to_coreml tf ct dir meta out items outs phase) =
             (case ct_convert ct frozen_graph_def ''tensorflow''
                     (map (\<lambda>name. TensorType name None) outs)
                     (map (\<lambda>(n, s). TensorType (takeWhile (\<lambda>c. c \<noteq> CHR '':'') n) s)
                          (filter (\<lambda>(n, s). n \<noteq> phase) items))
                     macOS12 of
                Inl e \<Rightarrow> Inl (Raised e)
              | Inr mlmodel \<Rightarrow>
                  (case ct_save ct mlmodel out of
                     Inl e \<Rightarrow> Inl (Raised e)
                   | Inr u \<Rightarrow> Inr ())))
   \<and> (ct_convert_inputs
         (snd (convert_tf_checkpoint_to_coreml tf ct dir meta out items outs phase)) = []
      \<or> ct_convert_inputs
          (snd (convert_tf_checkpoint_to_coreml tf ct dir meta out items outs phase)) =
          [map (\<lambda>(n, s). TensorType (takeWhile (\<lambda>c. c \<noteq> CHR '':'') n) s)
               (filter (\<lambda>(n, s). n \<noteq> phase) items)])"
proof (intro conjI)
  show "coreml_inputs_loop phase items [] =
     Some (map (\<lambda>(n, s). TensorType (takeWhile (\<lambda>c. c \<noteq> CHR '':'') n) s)
               (filter (\<lambda>(n, s). n \<noteq> phase) items))"
    by (simp add: coreml_inputs_loop_eq)
next
  show "import_meta_graph tf (os_path_join dir meta) True
          (Some [(phase, Constant False ''bool'' ''phase_train_const_val'')]) = Inr saver
       \<and> py_truthy (latest_checkpoint tf dir)
       \<and> restore tf saver (the (latest_checkpoint tf dir)) = Inr sess
       \<and> convert_variables_to_constants tf sess (graph_def tf saver)
            (map (takeWhile (\<lambda>c. c \<noteq> CHR '':'')) outs) = Inr frozen_graph_def
       \<and> gfile_write tf (os_path_join dir ''frozen_model.pb'')
            (SerializeToString tf frozen_graph_def) = Inr ()
       \<longrightarrow>
         ct_convert_inputs
           (snd (convert_tf_checkpoint_to_coreml tf ct dir meta out items outs phase)) =
           [map (\<lambda>(n, s). TensorType (takeWhile (\<lambda>c. c \<noteq> CHR '':'') n) s)
                (filter (\<lambda>(n, s). n \<noteq> phase) items)]
         \<and> fst (convert_tf_checkpoint_to_coreml tf ct dir meta out items outs phase) =
             (case ct_convert ct frozen_graph_def ''tensorflow''
                     (map (\<lambda>name. TensorType name None) outs)
                     (map (\<lambda>(n, s). TensorType (takeWhile (\<lambda>c. c \<noteq> CHR '':'') n) s)
                          (filter (\<lambda>(n, s). n \<noteq> phase) items))
                     macOS12 of
                Inl e \<Rightarrow> Inl (Raised e)
              | Inr mlmodel \<Rightarrow>
                  (case ct_save ct mlmodel out of
                     Inl e \<Rightarrow> Inl (Raised e)
                   | Inr u \<Rightarrow> Inr ()))"
    by (simp add: convert_tf_checkpoint_to_coreml_def convert_and_save_def Let_def
        output_node_names_for_freezing_eq coreml_inputs_loop_eq ct_convert_inputs_append
        ct_convert_inputs_features split: sum.splits)
next
  let ?r = "convert_tf_checkpoint_to_coreml tf ct dir meta out items outs phase"
  let ?ins = "map (\<lambda>(n, s). TensorType (takeWhile (\<lambda>c. c \<noteq> CHR '':'') n) s)
               (filter (\<lambda>(n, s). n \<noteq> phase) items)"
  from convert_reaches_conversion [of tf ct dir meta out items outs phase]
  show "ct_convert_inputs (snd ?r) = [] \<or> ct_convert_inputs (snd ?r) = [?ins]"
  proof
    assume "ct_convert_inputs (snd ?r) = []"
    then show ?thesis by simp
  next
    assume "\<exists>fz tr. ?r = convert_and_save ct fz out items outs phase tr
               \<and> ct_convert_inputs tr = []"
    then obtain fz tr where r: "?r = convert_and_save ct fz out items outs phase tr"
      and tr: "ct_convert_inputs tr = []" by blast
    from convert_and_save_inputs [of ct fz out items outs phase tr] tr r
    show ?thesis by simp
  qed
qed

theorem declared_inputs_exclude_phase_train_witness:
  "ct_convert_inputs
     (snd (convert_tf_checkpoint_to_coreml sample_tf ct_checks_inputs MODEL_DIR META_FILE
            (os_path_join MODEL_DIR OUTPUT_MLMODEL_R) input_tensor_map_shapes_R
            [output_tensor_name] ''model_control/phase_train:0'')) =
     [[TensorType ''inputs/input_img'' (Some [1, 48, 64, 3]),
       TensorType ''inputs/input_fp'' (Some [1, 48, 64, 12]),
       TensorType ''inputs/input_ang'' (Some [1, 2])]]
   \<and> fst (convert_tf_checkpoint_to_coreml sample_tf ct_checks_inputs MODEL_DIR META_FILE
            (os_path_join MODEL_DIR OUTPUT_MLMODEL_R) input_tensor_map_shapes_R
            [output_tensor_name] ''model_control/phase_train:0'') = Inr ()"
  using declared_inputs_exclude_phase_train [where tf = sample_tf and ct = ct_checks_inputs
      and dir = MODEL_DIR and meta = META_FILE and phase = "''model_control/phase_train:0''"
      and out = "os_path_join MODEL_DIR OUTPUT_MLMODEL_R" and items = input_tensor_map_shapes_R
      and outs = "[output_tensor_name]" and saver = sample_ops and sess = "()"
      and frozen_graph_def = "[''tower_0/warping_model/Tanh'']"]
  by (simp add: sample_tf_def ct_checks_inputs_def sample_ct_def sample_ops_def
      output_tensor_name_def input_tensor_map_shapes_R_def)

subsection \<open>The load of the meta graph\<close>

text \<open>
  C4: every run of the converter first prints the path and then calls
  \<open>import_meta_graph\<close> with \<open>clear_devices=True\<close> and an input map that sends the
  phase-train tensor name to the constant \<open>False\<close> of type bool named
  \<open>phase_train_const_val\<close>; it is the only call of \<open>import_meta_graph\<close> of the run.
  The run depends on the result of this application: if it raises, that exception
  ends the converter at once; if it returns a graph, this graph is the one whose
  weights are restored and whose definition is frozen. For every way
  \<open>control_input\<close> of reading from a loaded graph what a tensor name is fed by, such
  that \<open>import_meta_graph\<close> honours its input map, the phase-train tensor of the
  loaded graph is fed by the constant \<open>False\<close>.
\<close>

theorem converter_maps_phase_train_to_False:
  "take 2 (snd (convert_tf_checkpoint_to_coreml tf ct dir meta out items outs phase)) =
       [Print [Lit ''Loading meta graph: '', Str (os_path_join dir meta)],
        Call (ImportMetaGraph (os_path_join dir meta) True
               (Some [(phase, Constant False ''bool'' ''phase_train_const_val'')]))]
   \<and> import_meta_graph_calls
        (snd (convert_tf_checkpoint_to_coreml tf ct dir meta out items outs phase)) =
       [ImportMetaGraph (os_path_join dir meta) True
          (Some [(phase, Constant False ''bool'' ''phase_train_const_val'')])]
   \<and> (import_meta_graph tf (os_path_join dir meta) True
          (Some [(phase, Constant False ''bool'' ''phase_train_const_val'')]) = Inl e
       \<longrightarrow> convert_tf_checkpoint_to_coreml tf ct dir meta out items outs phase =
             (Inl (Raised e),
              [Print [Lit ''Loading meta graph: '', Str (os_path_join dir meta)],
               Call (ImportMetaGraph (os_path_join dir meta) True
                      (Some [(phase, Constant False ''bool'' ''phase_train_const_val'')]))]))
   \<and> (import_meta_graph tf (os_path_join dir meta) True
          (Some [(phase, Constant False ''bool'' ''phase_train_const_val'')]) = Inr saver
       \<longrightarrow>
         ((\<forall>path clear_devices input_map graph name c.
              import_meta_graph tf path clear_devices (Some input_map) = Inr graph
              \<longrightarrow> map_of input_map name = Some c
              \<longrightarrow> control_input graph name = Some c)
          \<longrightarrow> control_input saver phase =
                Some (Constant False ''bool'' ''phase_train_const_val''))
         \<and> (\<not> py_truthy (latest_checkpoint tf dir)
              \<longrightarrow> fst (convert_tf_checkpoint_to_coreml tf ct dir meta out items outs phase) =
                    Inl (ValueError (''No checkpoint found in directory: '' @ dir)))
         \<and> (py_truthy (latest_checkpoint tf dir)
              \<longrightarrow>
                (restore tf saver (the (latest_checkpoint tf dir)) = Inl e
                   \<longrightarrow> fst (convert_tf_checkpoint_to_coreml tf ct dir meta out items outs
                              phase) = Inl (Raised e))
                \<and> (restore tf saver (the (latest_checkpoint tf dir)) = Inr sess
                     \<and> convert_variables_to_constants tf sess (graph_def tf saver)
                          (map (takeWhile (\<lambda>c. c \<noteq> CHR '':'')) outs) = Inl e
                   \<longrightarrow> fst (convert_tf_checkpoint_to_coreml tf ct dir meta out items outs
                              phase) = Inl (Raised e))))"
proof (intro conjI)
  let ?r = "convert_tf_checkpoint_to_coreml tf ct dir meta out items outs phase"
  let ?map = "Some [(phase, Constant False ''bool'' ''phase_train_const_val'')]"
  let ?call = "ImportMetaGraph (os_path_join dir meta) True ?map"
  show "take 2 (snd ?r) =
       [Print [Lit ''Loading meta graph: '', Str (os_path_join dir meta)], Call ?call]"
    by (simp add: convert_tf_checkpoint_to_coreml_def Let_def output_node_names_for_freezing_eq
        convert_and_save_take split: sum.splits)
  show "import_meta_graph_calls (snd ?r) = [?call]"
    by (simp add: convert_tf_checkpoint_to_coreml_def Let_def output_node_names_for_freezing_eq
        convert_and_save_imports split: sum.splits)
  show "import_meta_graph tf (os_path_join dir meta) True ?map = Inl e
       \<longrightarrow> ?r = (Inl (Raised e),
              [Print [Lit ''Loading meta graph: '', Str (os_path_join dir meta)], Call ?call])"
    by (simp add: convert_tf_checkpoint_to_coreml_def Let_def)
  show "import_meta_graph tf (os_path_join dir meta) True ?map = Inr saver
       \<longrightarrow>
         ((\<forall>path clear_devices input_map graph name c.
              import_meta_graph tf path clear_devices (Some input_map) = Inr graph
              \<longrightarrow> map_of input_map name = Some c
              \<longrightarrow> control_input graph name = Some c)
          \<longrightarrow> control_input saver phase =
                Some (Constant False ''bool'' ''phase_train_const_val''))
         \<and> (\<not> py_truthy (latest_checkpoint tf dir)
              \<longrightarrow> fst ?r = Inl (ValueError (''No checkpoint found in directory: '' @ dir)))
         \<and> (py_truthy (latest_checkpoint tf dir)
              \<longrightarrow>
                (restore tf saver (the (latest_checkpoint tf dir)) = Inl e
                   \<longrightarrow> fst ?r = Inl (Raised e))
                \<and> (restore tf saver (the (latest_checkpoint tf dir)) = Inr sess
                     \<and> convert_variables_to_constants tf sess (graph_def tf saver)
                          (map (takeWhile (\<lambda>c. c \<noteq> CHR '':'')) outs) = Inl e
                   \<longrightarrow> fst ?r = Inl (Raised e)))"
  proof (intro impI conjI)
    assume i: "import_meta_graph tf (os_path_join dir meta) True ?map = Inr saver"
    assume c: "\<forall>path clear_devices input_map graph name c.
              import_meta_graph tf path clear_devices (Some input_map) = Inr graph
              \<longrightarrow> map_of input_map name = Some c
              \<longrightarrow> control_input graph name = Some c"
    have "map_of [(phase, Constant False ''bool'' ''phase_train_const_val'')] phase =
        Some (Constant False ''bool'' ''phase_train_const_val'')"
      by simp
    with i c show "control_input saver phase =
        Some (Constant False ''bool'' ''phase_train_const_val'')"
      by blast
  next
    assume "import_meta_graph tf (os_path_join dir meta) True ?map = Inr saver"
      and "\<not> py_truthy (latest_checkpoint tf dir)"
    then show "fst ?r = Inl (ValueError (''No checkpoint found in directory: '' @ dir))"
      by (simp add: convert_tf_checkpoint_to_coreml_def Let_def)
  next
    assume "import_meta_graph tf (os_path_join dir meta) True ?map = Inr saver"
      and "py_truthy (latest_checkpoint tf dir)"
      and "restore tf saver (the (latest_checkpoint tf dir)) = Inl e"
    then show "fst ?r = Inl (Raised e)"
      by (simp add: convert_tf_checkpoint_to_coreml_def Let_def)
  next
    assume "import_meta_graph tf (os_path_join dir meta) True ?map = Inr saver"
      and "py_truthy (latest_checkpoint tf dir)"
      and "restore tf saver (the (latest_checkpoint tf dir)) = Inr sess
                     \<and> convert_variables_to_constants tf sess (graph_def tf saver)
                          (map (takeWhile (\<lambda>c. c \<noteq> CHR '':'')) outs) = Inl e"
    then show "fst ?r = Inl (Raised e)"
      by (simp add: convert_tf_checkpoint_to_coreml_def Let_def
          output_node_names_for_freezing_eq)
  qed
qed

theorem converter_maps_phase_train_to_False_witness:
  "take 2 (snd (convert_tf_checkpoint_to_coreml tf_remapping sample_ct MODEL_DIR META_FILE
            (os_path_join MODEL_DIR OUTPUT_MLMODEL_R) input_tensor_map_shapes_R
            [output_tensor_name] ''model_control/phase_train:0'')) =
     [Print [Lit ''Loading meta graph: '', Str ''OriginalModel/R/R.meta''],
      Call (ImportMetaGraph ''OriginalModel/R/R.meta'' True
             (Some [(''model_control/phase_train:0'',
                     Constant False ''bool'' ''phase_train_const_val'')]))]
   \<and> import_meta_graph tf_remapping ''OriginalModel/R/R.meta'' True
        (Some [(''model_control/phase_train:0'',
                Constant False ''bool'' ''phase_train_const_val'')]) =
       Inr (sample_ops,
            [(''model_control/phase_train:0'',
              Constant False ''bool'' ''phase_train_const_val'')])
   \<and> remapped_to
        (sample_ops,
         [(''model_control/phase_train:0'', Constant False ''bool'' ''phase_train_const_val'')])
        ''model_control/phase_train:0'' =
       Some (Constant False ''bool'' ''phase_train_const_val'')"
proof -
  have contract: "\<forall>path clear_devices input_map graph name c.
      import_meta_graph tf_remapping path clear_devices (Some input_map) = Inr graph
      \<longrightarrow> map_of input_map name = Some c
      \<longrightarrow> remapped_to graph name = Some c"
    by (auto simp: tf_remapping_def remapped_to_def)
  have i: "import_meta_graph tf_remapping (os_path_join MODEL_DIR META_FILE) True
        (Some [(''model_control/phase_train:0'',
                Constant False ''bool'' ''phase_train_const_val'')]) =
       Inr (sample_ops,
            [(''model_control/phase_train:0'',
              Constant False ''bool'' ''phase_train_const_val'')])"
    by (simp add: tf_remapping_def)
  from converter_maps_phase_train_to_False [where tf = tf_remapping and ct = sample_ct
      and dir = MODEL_DIR and meta = META_FILE and phase = "''model_control/phase_train:0''"
      and out = "os_path_join MODEL_DIR OUTPUT_MLMODEL_R" and items = input_tensor_map_shapes_R
      and outs = "[output_tensor_name]" and control_input = remapped_to
      and saver = "(sample_ops, [(''model_control/phase_train:0'',
              Constant False ''bool'' ''phase_train_const_val'')])"] contract i
  show ?thesis
    by (simp add: MODEL_DIR_def META_FILE_def os_path_join_def)
qed

subsection \<open>Exceptions of the libraries\<close>

text \<open>
  C8: the converter has no handler. Its result is a normal return, the \<open>ValueError\<close>
  of line 45, or an exception of a library call; and whichever of the six library
  calls that can raise does so first (the load of the meta graph, the restore, the
  freezing, the write of the frozen graph, the conversion, the save of the model),
  its exception \<open>e\<close> is the one that leaves \<open>convert_tf_checkpoint_to_coreml\<close>,
  unchanged.
\<close>

theorem library_errors_propagate_unchanged:
  "(fst (convert_tf_checkpoint_to_coreml tf ct dir meta out items outs phase) = Inr ()
    \<or> fst (convert_tf_checkpoint_to_coreml tf ct dir meta out items outs phase) =
         Inl (ValueError (''No checkpoint found in directory: '' @ dir))
    \<or> (\<exists>e'. fst (convert_tf_checkpoint_to_coreml tf ct dir meta out items outs phase) =
         Inl (Raised e')))
   \<and> (import_meta_graph tf (os_path_join dir meta) True
        (Some [(phase, Constant False ''bool'' ''phase_train_const_val'')]) = Inl e
      \<longrightarrow> fst (convert_tf_checkpoint_to_coreml tf ct dir meta out items outs phase) =
            Inl (Raised e))
   \<and> (import_meta_graph tf (os_path_join dir meta) True
        (Some [(phase, Constant False ''bool'' ''phase_train_const_val'')]) = Inr saver
      \<and> py_truthy (latest_checkpoint tf dir)
      \<longrightarrow>
        (restore tf saver (the (latest_checkpoint tf dir)) = Inl e
           \<longrightarrow> fst (convert_tf_checkpoint_to_coreml tf ct dir meta out items outs phase) =
                 Inl (Raised e))
      \<and> (restore tf saver (the (latest_checkpoint tf dir)) = Inr sess
           \<longrightarrow>
             (convert_variables_to_constants tf sess (graph_def tf saver)
                  (map (takeWhile (\<lambda>c. c \<noteq> CHR '':'')) outs) = Inl e
                \<longrightarrow> fst (convert_tf_checkpoint_to_coreml tf ct dir meta out items outs phase) =
                      Inl (Raised e))
           \<and> (convert_variables_to_constants tf sess (graph_def tf saver)
                  (map (takeWhile (\<lambda>c. c \<noteq> CHR '':'')) outs) = Inr frozen_graph_def
                \<longrightarrow>
                  (gfile_write tf (os_path_join dir ''frozen_model.pb'')
                       (SerializeToString tf frozen_graph_def) = Inl e
                     \<longrightarrow> fst (convert_tf_checkpoint_to_coreml tf ct dir meta out items outs phase) =
                           Inl (Raised e))
                \<and> (gfile_write tf (os_path_join dir ''frozen_model.pb'')
                       (SerializeToString tf frozen_graph_def) = Inr ()
                     \<longrightarrow>
                       (ct_convert ct frozen_graph_def ''tensorflow''
                            (map (\<lambda>name. TensorType name None) outs)
                            (map (\<lambda>(n, s). TensorType (takeWhile (\<lambda>c. c \<noteq> CHR '':'') n) s)
                                 (filter (\<lambda>(n, s). n \<noteq> phase) items))
                            macOS12 = Inl e
                          \<longrightarrow> fst (convert_tf_checkpoint_to_coreml tf ct dir meta out items outs
                                     phase) = Inl (Raised e))
                     \<and> (ct_convert ct frozen_graph_def ''tensorflow''
                            (map (\<lambda>name. TensorType name None) outs)
                            (map (\<lambda>(n, s). TensorType (takeWhile (\<lambda>c. c \<noteq> CHR '':'') n) s)
                                 (filter (\<lambda>(n, s). n \<noteq> phase) items))
                            macOS12 = Inr mlmodel
                          \<and> ct_save ct mlmodel out = Inl e
                          \<longrightarrow> fst (convert_tf_checkpoint_to_coreml tf ct dir meta out items outs
                                     phase) = Inl (Raised e))))))"
  by (simp add: convert_tf_checkpoint_to_coreml_def convert_and_save_def Let_def
      output_node_names_for_freezing_eq coreml_inputs_loop_eq split: sum.splits)

theorem library_errors_propagate_unchanged_witness:
  "fst (convert_tf_checkpoint_to_coreml sample_tf ct_unsupported_op MODEL_DIR META_FILE
          (os_path_join MODEL_DIR OUTPUT_MLMODEL_R) input_tensor_map_shapes_R
          [output_tensor_name] ''model_control/phase_train:0'') =
     Inl (Raised ''Unsupported op'')
   \<and> fst (convert_tf_checkpoint_to_coreml tf_corrupt_checkpoint sample_ct MODEL_DIR META_FILE
          (os_path_join MODEL_DIR OUTPUT_MLMODEL_R) input_tensor_map_shapes_R
          [output_tensor_name] ''model_control/phase_train:0'') =
     Inl (Raised ''Data loss'')"
proof
  from library_errors_propagate_unchanged [where tf = sample_tf and ct = ct_unsupported_op
      and dir = MODEL_DIR and meta = META_FILE and phase = "''model_control/phase_train:0''"
      and out = "os_path_join MODEL_DIR OUTPUT_MLMODEL_R" and items = input_tensor_map_shapes_R
      and outs = "[output_tensor_name]" and saver = sample_ops and sess = "()"
      and frozen_graph_def = "[''tower_0/warping_model/Tanh'']" and e = "''Unsupported op''"]
  show "fst (convert_tf_checkpoint_to_coreml sample_tf ct_unsupported_op MODEL_DIR META_FILE
          (os_path_join MODEL_DIR OUTPUT_MLMODEL_R) input_tensor_map_shapes_R
          [output_tensor_name] ''model_control/phase_train:0'') =
     Inl (Raised ''Unsupported op'')"
    by (simp add: sample_tf_def ct_unsupported_op_def sample_ct_def sample_ops_def
        output_tensor_name_def)
next
  from library_errors_propagate_unchanged [where tf = tf_corrupt_checkpoint and ct = sample_ct
      and dir = MODEL_DIR and meta = META_FILE and phase = "''model_control/phase_train:0''"
      and out = "os_path_join MODEL_DIR OUTPUT_MLMODEL_R" and items = input_tensor_map_shapes_R
      and outs = "[output_tensor_name]" and saver = sample_ops and e = "''Data loss''"]
  show "fst (convert_tf_checkpoint_to_coreml tf_corrupt_checkpoint sample_ct MODEL_DIR META_FILE
          (os_path_join MODEL_DIR OUTPUT_MLMODEL_R) input_tensor_map_shapes_R
          [output_tensor_name] ''model_control/phase_train:0'') =
     Inl (Raised ''Data loss'')"
    by (simp add: tf_corrupt_checkpoint_def sample_tf_def)
qed

text \<open>
  A run on the repository's configuration with libraries that succeed: the node names
  given to the freezing step have lost their port, the output names given to
  \<open>ct.convert\<close> are the configured names as they are.
\<close>

lemma sample_run_of_converter:
  "fst (conversion_main sample_tf sample_ct) = Inr ()"
  "filter freezes_or_converts (snd (conversion_main sample_tf sample_ct)) =
     [Call (ConvertVariablesToConstants [''tower_0/warping_model/Tanh'']),
      Call (GFileWrite ''OriginalModel/R/frozen_model.pb'' ''tower_0/warping_model/Tanh''),
      Call (CtConvert ''tensorflow''
             [TensorType ''tower_0/warping_model/Tanh:0'' None]
             [TensorType ''inputs/input_img'' (Some [1, 48, 64, 3]),
              TensorType ''inputs/input_fp'' (Some [1, 48, 64, 12]),
              TensorType ''inputs/input_ang'' (Some [1, 2])]
             macOS12),
      Call (Save ''OriginalModel/R/RightEyeWarp.mlpackage'')]"
  by (simp_all add: conversion_main_def convert_tf_checkpoint_to_coreml_def convert_and_save_def
      sample_tf_def sample_ct_def sample_ops_def MODEL_DIR_def META_FILE_def OUTPUT_MLMODEL_R_def
      input_tensor_map_shapes_R_def output_tensor_name_def os_path_join_def split_colon_0_def
      feature_line_def Let_def)

section \<open>The inspector\<close>

subsection \<open>The lines of the listings\<close>

lemma output_tensor_lines_eq: "output_tensor_lines ts = map output_tensor_line ts"
  by (induction ts) simp_all

lemma operation_lines_of_tensor_lines:
  "filter is_operation_line (map output_tensor_line ts) = []"
  by (induction ts) (simp_all add: output_tensor_line_def)

lemma placeholder_lines_of_tensor_lines:
  "filter is_placeholder_line (map output_tensor_line ts) = []"
  by (induction ts) (simp_all add: output_tensor_line_def)

lemma tensor_lines_of_tensor_lines:
  "filter is_output_tensor_line (map output_tensor_line ts) = map output_tensor_line ts"
  by (induction ts) (simp_all add: output_tensor_line_def)

lemma operation_lines_of_print_operations:
  "filter is_operation_line (print_operations ops) = map operation_line ops"
  by (induction ops)
     (simp_all add: operation_line_def output_tensor_lines_eq operation_lines_of_tensor_lines)

lemma tensor_lines_of_print_operations:
  "filter is_output_tensor_line (print_operations ops) =
     concat (map (\<lambda>opn. map output_tensor_line (op_outputs opn)) ops)"
  by (induction ops)
     (simp_all add: operation_line_def output_tensor_lines_eq tensor_lines_of_tensor_lines)

lemma placeholder_lines_of_print_operations:
  "filter is_placeholder_line (print_operations ops) = []"
  by (induction ops)
     (simp_all add: operation_line_def output_tensor_lines_eq placeholder_lines_of_tensor_lines)

lemma operation_lines_of_placeholder_tensors:
  "filter is_operation_line (map placeholder_tensor_line ts) = []"
  by (induction ts) (simp_all add: placeholder_tensor_line_def)

lemma tensor_lines_of_placeholder_tensors:
  "filter is_output_tensor_line (map placeholder_tensor_line ts) = []"
  by (induction ts) (simp_all add: placeholder_tensor_line_def)

lemma placeholder_lines_of_placeholder_tensors:
  "filter is_placeholder_line (map placeholder_tensor_line ts) = []"
  by (induction ts) (simp_all add: placeholder_tensor_line_def)

lemma operation_lines_of_print_placeholders:
  "filter is_operation_line (print_placeholders phs) = []"
  by (induction phs)
     (simp_all add: placeholder_line_def operation_lines_of_placeholder_tensors)

lemma tensor_lines_of_print_placeholders:
  "filter is_output_tensor_line (print_placeholders phs) = []"
  by (induction phs)
     (simp_all add: placeholder_line_def tensor_lines_of_placeholder_tensors)

lemma placeholder_lines_of_print_placeholders:
  "filter is_placeholder_line (print_placeholders phs) = map placeholder_line phs"
  by (induction phs)
     (simp_all add: placeholder_line_def placeholder_lines_of_placeholder_tensors)

lemma lines_of_hints:
  "filter is_operation_line hints = []"
  "filter is_output_tensor_line hints = []"
  "filter is_placeholder_line hints = []"
  by (simp_all add: hints_def)

lemma placeholder_tensor_lines_of_tensor_lines:
  "filter is_placeholder_tensor_line (map output_tensor_line ts) = []"
  by (induction ts) (simp_all add: output_tensor_line_def)

lemma placeholder_tensor_lines_of_print_operations:
  "filter is_placeholder_tensor_line (print_operations ops) = []"
  by (induction ops)
     (simp_all add: operation_line_def output_tensor_lines_eq
        placeholder_tensor_lines_of_tensor_lines)

lemma placeholder_tensor_lines_of_placeholder_tensors:
  "filter is_placeholder_tensor_line (map placeholder_tensor_line ts) =
     map placeholder_tensor_line ts"
  by (induction ts) (simp_all add: placeholder_tensor_line_def)

lemma placeholder_tensor_lines_of_print_placeholders:
  "filter is_placeholder_tensor_line (print_placeholders phs) =
     concat (map (\<lambda>ph_op. map placeholder_tensor_line (op_outputs ph_op)) phs)"
  by (induction phs)
     (simp_all add: placeholder_line_def placeholder_tensor_lines_of_placeholder_tensors)

lemma placeholder_tensor_lines_of_hints: "filter is_placeholder_tensor_line hints = []"
  by (simp add: hints_def)

subsection \<open>The listing of a restored graph\<close>

text \<open>
  C5: when the meta graph loads, a checkpoint is found and its weights are restored,
  \<open>inspect_checkpoint_model\<close> returns normally and its output has exactly one
  operation line, with the name and the type, for each operation of the graph, in the
  graph's order, so as many as the graph has operations; one tensor line, with the
  name, the shape and the data type, for each tensor each operation produces; and,
  for each operation of type Placeholder, one placeholder line with its name and one
  line for each of its tensors. Every placeholder operation is thus in both listings.
\<close>

theorem inspector_lists_every_operation:
  assumes "import_meta_graph tf (os_path_join dir meta) True None = Inr graph"
    and "py_truthy (latest_checkpoint tf dir)"
    and "restore tf graph (the (latest_checkpoint tf dir)) = Inr sess"
  shows "fst (inspect_checkpoint_model tf dir meta) = Inr ()
    \<and> filter is_operation_line (snd (inspect_checkpoint_model tf dir meta)) =
        map (\<lambda>opn. Print [Lit ''- Operation Name: '', Str (op_name opn),
                          Lit '' (Type: '', Str (op_type opn), Lit '')''])
            (get_operations tf graph)
    \<and> length (filter is_operation_line (snd (inspect_checkpoint_model tf dir meta))) =
        length (get_operations tf graph)
    \<and> filter is_output_tensor_line (snd (inspect_checkpoint_model tf dir meta)) =
        concat (map (\<lambda>opn.
                  map (\<lambda>t. Print [Lit ''    - Tensor Name: '', Str (tensor_name t),
                                  Lit '' (Shape: '', Shape (tensor_shape t),
                                  Lit '', DType: '', Str (tensor_dtype_name t), Lit '')''])
                      (op_outputs opn))
                (get_operations tf graph))
    \<and> filter is_placeholder_line (snd (inspect_checkpoint_model tf dir meta)) =
        map (\<lambda>opn. Print [Lit ''Potential Input (Placeholder Op): '', Str (op_name opn)])
            (filter (\<lambda>opn. op_type opn = ''Placeholder'') (get_operations tf graph))
    \<and> filter is_placeholder_tensor_line (snd (inspect_checkpoint_model tf dir meta)) =
        concat (map (\<lambda>opn.
                  map (\<lambda>t. Print [Lit ''  Tensor Name: '', Str (tensor_name t),
                                  Lit '', Shape: '', Shape (tensor_shape t),
                                  Lit '', DType: '', Str (tensor_dtype_name t)])
                      (op_outputs opn))
                (filter (\<lambda>opn. op_type opn = ''Placeholder'') (get_operations tf graph)))
    \<and> (\<forall>opn \<in> set (get_operations tf graph).
          op_type opn = ''Placeholder'' \<longrightarrow>
          Print [Lit ''- Operation Name: '', Str (op_name opn),
                 Lit '' (Type: '', Str ''Placeholder'', Lit '')'']
            \<in> set (snd (inspect_checkpoint_model tf dir meta))
          \<and> Print [Lit ''Potential Input (Placeholder Op): '', Str (op_name opn)]
            \<in> set (snd (inspect_checkpoint_model tf dir meta)))"
proof -
  let ?ops = "get_operations tf graph"
  let ?tr = "snd (inspect_checkpoint_model tf dir meta)"
  let ?opl = "\<lambda>opn. Print [Lit ''- Operation Name: '', Str (op_name opn),
                          Lit '' (Type: '', Str (op_type opn), Lit '')'']"
  let ?phl = "\<lambda>opn. Print [Lit ''Potential Input (Placeholder Op): '', Str (op_name opn)]"
  have res: "fst (inspect_checkpoint_model tf dir meta) = Inr ()"
    using assms by (simp add: inspect_checkpoint_model_def Let_def)
  have "filter is_operation_line ?tr = map operation_line ?ops"
    using assms
    by (simp add: inspect_checkpoint_model_def Let_def operation_lines_of_print_operations
        operation_lines_of_print_placeholders lines_of_hints)
  then have ops: "filter is_operation_line ?tr = map ?opl ?ops"
    by (simp add: operation_line_def)
  have "filter is_output_tensor_line ?tr =
        concat (map (\<lambda>opn. map output_tensor_line (op_outputs opn)) ?ops)"
    using assms
    by (simp add: inspect_checkpoint_model_def Let_def tensor_lines_of_print_operations
        tensor_lines_of_print_placeholders lines_of_hints)
  then have tens: "filter is_output_tensor_line ?tr =
        concat (map (\<lambda>opn.
                  map (\<lambda>t. Print [Lit ''    - Tensor Name: '', Str (tensor_name t),
                                  Lit '' (Shape: '', Shape (tensor_shape t),
                                  Lit '', DType: '', Str (tensor_dtype_name t), Lit '')''])
                      (op_outputs opn)) ?ops)"
    by (simp add: output_tensor_line_def [abs_def])
  have "filter is_placeholder_line ?tr =
        map placeholder_line (filter (\<lambda>opn. op_type opn = ''Placeholder'') ?ops)"
    using assms
    by (simp add: inspect_checkpoint_model_def Let_def placeholder_lines_of_print_operations
        placeholder_lines_of_print_placeholders lines_of_hints)
  then have phs: "filter is_placeholder_line ?tr =
        map ?phl (filter (\<lambda>opn. op_type opn = ''Placeholder'') ?ops)"
    by (simp add: placeholder_line_def)
  have "filter is_placeholder_tensor_line ?tr =
        concat (map (\<lambda>opn. map placeholder_tensor_line (op_outputs opn))
                 (filter (\<lambda>opn. op_type opn = ''Placeholder'') ?ops))"
    using assms
    by (simp add: inspect_checkpoint_model_def Let_def
        placeholder_tensor_lines_of_print_operations
        placeholder_tensor_lines_of_print_placeholders placeholder_tensor_lines_of_hints)
  then have phts: "filter is_placeholder_tensor_line ?tr =
        concat (map (\<lambda>opn.
                  map (\<lambda>t. Print [Lit ''  Tensor Name: '', Str (tensor_name t),
                                  Lit '', Shape: '', Shape (tensor_shape t),
                                  Lit '', DType: '', Str (tensor_dtype_name t)])
                      (op_outputs opn))
                (filter (\<lambda>opn. op_type opn = ''Placeholder'') ?ops))"
    by (simp add: placeholder_tensor_line_def [abs_def])
  have mem: "Print [Lit ''- Operation Name: '', Str (op_name opn),
                 Lit '' (Type: '', Str ''Placeholder'', Lit '')''] \<in> set ?tr
             \<and> ?phl opn \<in> set ?tr"
    if "opn \<in> set ?ops" and "op_type opn = ''Placeholder''" for opn
  proof
    from that(1) have "?opl opn \<in> set (map ?opl ?ops)" by auto
    with ops have "?opl opn \<in> set (filter is_operation_line ?tr)" by simp
    then have "?opl opn \<in> set ?tr" by simp
    with that(2) show "Print [Lit ''- Operation Name: '', Str (op_name opn),
                 Lit '' (Type: '', Str ''Placeholder'', Lit '')''] \<in> set ?tr"
      by simp
    from that have "opn \<in> set (filter (\<lambda>opn. op_type opn = ''Placeholder'') ?ops)"
      by simp
    then have "?phl opn \<in>
        set (map ?phl (filter (\<lambda>opn. op_type opn = ''Placeholder'') ?ops))"
      by auto
    with phs have "?phl opn \<in> set (filter is_placeholder_line ?tr)" by simp
    then show "?phl opn \<in> set ?tr" by simp
  qed
  from res ops tens phs phts mem show ?thesis by simp
qed

theorem inspector_lists_every_operation_witness:
  "filter is_operation_line (snd (inspect_checkpoint_model sample_tf checkpoint_base_dir meta_file)) =
     [Print [Lit ''- Operation Name: '', Str ''inputs/input_img'',
             Lit '' (Type: '', Str ''Placeholder'', Lit '')''],
      Print [Lit ''- Operation Name: '', Str ''save/restore_all'',
             Lit '' (Type: '', Str ''NoOp'', Lit '')''],
      Print [Lit ''- Operation Name: '', Str ''tower_0/warping_model/Tanh'',
             Lit '' (Type: '', Str ''Tanh'', Lit '')'']]
   \<and> filter is_output_tensor_line
        (snd (inspect_checkpoint_model sample_tf checkpoint_base_dir meta_file)) =
     [Print [Lit ''    - Tensor Name: '', Str ''inputs/input_img:0'',
             Lit '' (Shape: '', Shape (Some [None, Some 48, Some 64, Some 3]),
             Lit '', DType: '', Str ''float32'', Lit '')''],
      Print [Lit ''    - Tensor Name: '', Str ''tower_0/warping_model/Tanh:0'',
             Lit '' (Shape: '', Shape (Some [None, Some 48, Some 64, Some 2]),
             Lit '', DType: '', Str ''float32'', Lit '')'']]
   \<and> filter is_placeholder_line
        (snd (inspect_checkpoint_model sample_tf checkpoint_base_dir meta_file)) =
     [Print [Lit ''Potential Input (Placeholder Op): '', Str ''inputs/input_img'']]
   \<and> filter is_placeholder_tensor_line
        (snd (inspect_checkpoint_model sample_tf checkpoint_base_dir meta_file)) =
     [Print [Lit ''  Tensor Name: '', Str ''inputs/input_img:0'',
             Lit '', Shape: '', Shape (Some [None, Some 48, Some 64, Some 3]),
             Lit '', DType: '', Str ''float32'']]"
proof -
  have i: "import_meta_graph sample_tf (os_path_join checkpoint_base_dir meta_file) True None =
      Inr sample_ops"
    by (simp add: sample_tf_def)
  have c: "py_truthy (latest_checkpoint sample_tf checkpoint_base_dir)"
    by (simp add: sample_tf_def)
  have r: "restore sample_tf sample_ops (the (latest_checkpoint sample_tf checkpoint_base_dir)) =
      Inr ()"
    by (simp add: sample_tf_def)
  have g: "get_operations sample_tf sample_ops = sample_ops"
    by (simp add: sample_tf_def)
  from inspector_lists_every_operation [OF i c r] g
  show ?thesis
    by (simp add: sample_ops_def)
qed

subsection \<open>No checkpoint\<close>

text \<open>
  C10: when the meta graph loads and no checkpoint is found in the directory,
  \<open>inspect_checkpoint_model\<close> prints the error line and returns normally; nothing is
  restored and no operation, tensor or placeholder line is printed.
\<close>

theorem inspector_no_checkpoint_returns:
  assumes "import_meta_graph tf (os_path_join dir meta) True None = Inr graph"
    and "\<not> py_truthy (latest_checkpoint tf dir)"
  shows "inspect_checkpoint_model tf dir meta =
           (Inr (),
            [Call (ImportMetaGraph (os_path_join dir meta) True None),
             Call (LatestCheckpoint dir),
             Print [Lit ''Error: No checkpoint found in directory: '', Str dir]])
         \<and> filter is_operation_line (snd (inspect_checkpoint_model tf dir meta)) = []
         \<and> filter is_output_tensor_line (snd (inspect_checkpoint_model tf dir meta)) = []
         \<and> filter is_placeholder_line (snd (inspect_checkpoint_model tf dir meta)) = []"
  using assms by (simp add: inspect_checkpoint_model_def Let_def)

theorem inspector_no_checkpoint_returns_witness:
  "inspect_checkpoint_model tf_no_checkpoint checkpoint_base_dir meta_file =
     (Inr (),
      [Call (ImportMetaGraph ''OriginalModel/L/L.meta'' True None),
       Call (LatestCheckpoint ''OriginalModel/L''),
       Print [Lit ''Error: No checkpoint found in directory: '', Str ''OriginalModel/L'']])"
proof -
  have i: "import_meta_graph tf_no_checkpoint (os_path_join checkpoint_base_dir meta_file)
             True None = Inr sample_ops"
    by (simp add: tf_no_checkpoint_def sample_tf_def)
  have h: "\<not> py_truthy (latest_checkpoint tf_no_checkpoint checkpoint_base_dir)"
    by (simp add: tf_no_checkpoint_def sample_tf_def)
  from inspector_no_checkpoint_returns [OF i h]
  show ?thesis
    by (simp add: checkpoint_base_dir_def meta_file_def os_path_join_def)
qed

subsection \<open>The main program\<close>

lemma inspect_checkpoint_model_imports_first:
  "take 1 (snd (inspect_checkpoint_model tf dir meta)) =
     [Call (ImportMetaGraph (os_path_join dir meta) True None)]"
  by (simp add: inspect_checkpoint_model_def Let_def split: sum.splits)

text \<open>
  C6: when the meta graph file does not exist, the main program prints the error and
  ends normally; \<open>inspect_checkpoint_model\<close> is not called, so the graph is never
  loaded.
\<close>

theorem missing_meta_file_reported:
  assumes "\<not> path_exists (os_path_join checkpoint_base_dir meta_file)"
  shows "inspect_main path_exists tf =
           (Inr (),
            [Call (PathExists ''OriginalModel/L/L.meta''),
             Print [Lit ''Error: Meta graph file not found at '',
                    Str ''OriginalModel/L/L.meta'']])
         \<and> import_meta_graph_calls (snd (inspect_main path_exists tf)) = []"
  using assms
  by (simp add: inspect_main_def Let_def checkpoint_base_dir_def meta_file_def os_path_join_def)

theorem missing_meta_file_reported_witness:
  "inspect_main (\<lambda>p. False) sample_tf =
     (Inr (),
      [Call (PathExists ''OriginalModel/L/L.meta''),
       Print [Lit ''Error: Meta graph file not found at '', Str ''OriginalModel/L/L.meta'']])"
  using missing_meta_file_reported [where path_exists = "\<lambda>p. False" and tf = sample_tf]
  by simp




end
